theory Spec2Isabelle
  imports Complex_Main
begin

section \<open>JavaScript numbers\<close>

text \<open>
  A JavaScript number is modelled as a real number or one of the three special values of
  IEEE 754. Finite arithmetic is exact (no rounding, no overflow) and the sign of zero is
  not tracked; the special values follow IEEE 754, so that the division by a zero segment
  length in \<open>WalkingObject.update\<close> yields \<open>PosInf\<close>, \<open>NegInf\<close> or \<open>NaN\<close> as it does in
  the program, and not the value \<open>0\<close> of division by zero in HOL.
\<close>

datatype jsnum = Fin real | PosInf | NegInf | NaN

fun jneg :: "jsnum \<Rightarrow> jsnum" where
  "jneg (Fin a) = Fin (- a)"
| "jneg PosInf = NegInf"
| "jneg NegInf = PosInf"
| "jneg NaN = NaN"

fun jadd :: "jsnum \<Rightarrow> jsnum \<Rightarrow> jsnum" where
  "jadd (Fin a) (Fin b) = Fin (a + b)"
| "jadd NaN _ = NaN"
| "jadd _ NaN = NaN"
| "jadd PosInf NegInf = NaN"
| "jadd NegInf PosInf = NaN"
| "jadd PosInf _ = PosInf"
| "jadd _ PosInf = PosInf"
| "jadd NegInf _ = NegInf"
| "jadd _ NegInf = NegInf"

definition jsub :: "jsnum \<Rightarrow> jsnum \<Rightarrow> jsnum" where
  "jsub a b = jadd a (jneg b)"

text \<open>The product of an infinity of sign \<open>pos\<close> with the finite number \<open>b\<close>.\<close>

definition inf_times :: "bool \<Rightarrow> real \<Rightarrow> jsnum" where
  "inf_times pos b =
     (if b = 0 then NaN else if (0 < b) = pos then PosInf else NegInf)"

fun jmul :: "jsnum \<Rightarrow> jsnum \<Rightarrow> jsnum" where
  "jmul (Fin a) (Fin b) = Fin (a * b)"
| "jmul NaN _ = NaN"
| "jmul _ NaN = NaN"
| "jmul PosInf (Fin b) = inf_times True b"
| "jmul NegInf (Fin b) = inf_times False b"
| "jmul (Fin a) PosInf = inf_times True a"
| "jmul (Fin a) NegInf = inf_times False a"
| "jmul PosInf PosInf = PosInf"
| "jmul NegInf NegInf = PosInf"
| "jmul PosInf NegInf = NegInf"
| "jmul NegInf PosInf = NegInf"

text \<open>
  Division. A finite non-zero number divided by zero is an infinity of its sign, and
  \<open>0 / 0\<close> is \<open>NaN\<close>. The zero divisors of the program are results of \<open>Math.sqrt\<close> and
  array lengths, which are never the negative zero.
\<close>

fun jdiv :: "jsnum \<Rightarrow> jsnum \<Rightarrow> jsnum" where
  "jdiv (Fin a) (Fin b) =
     (if b = 0 then (if a = 0 then NaN else if 0 < a then PosInf else NegInf)
      else Fin (a / b))"
| "jdiv NaN _ = NaN"
| "jdiv _ NaN = NaN"
| "jdiv (Fin a) PosInf = Fin 0"
| "jdiv (Fin a) NegInf = Fin 0"
| "jdiv PosInf (Fin b) = (if 0 \<le> b then PosInf else NegInf)"
| "jdiv NegInf (Fin b) = (if 0 \<le> b then NegInf else PosInf)"
| "jdiv PosInf _ = NaN"
| "jdiv NegInf _ = NaN"

fun jsqrt :: "jsnum \<Rightarrow> jsnum" where
  "jsqrt (Fin a) = (if a < 0 then NaN else Fin (sqrt a))"
| "jsqrt PosInf = PosInf"
| "jsqrt NegInf = NaN"
| "jsqrt NaN = NaN"

fun jsin :: "jsnum \<Rightarrow> jsnum" where
  "jsin (Fin a) = Fin (sin a)"
| "jsin _ = NaN"

fun jabs :: "jsnum \<Rightarrow> jsnum" where
  "jabs (Fin a) = Fin \<bar>a\<bar>"
| "jabs PosInf = PosInf"
| "jabs NegInf = PosInf"
| "jabs NaN = NaN"

text \<open>\<open>Math.round\<close> rounds to the nearest integer, a half towards plus infinity.\<close>

fun jround :: "jsnum \<Rightarrow> jsnum" where
  "jround (Fin a) = Fin (of_int \<lfloor>a + 1 / 2\<rfloor>)"
| "jround v = v"

text \<open>Comparisons: every comparison with \<open>NaN\<close> is false.\<close>

fun jlt :: "jsnum \<Rightarrow> jsnum \<Rightarrow> bool" where
  "jlt (Fin a) (Fin b) = (a < b)"
| "jlt NaN _ = False"
| "jlt _ NaN = False"
| "jlt _ NegInf = False"
| "jlt NegInf _ = True"
| "jlt PosInf _ = False"
| "jlt _ PosInf = True"

definition jgt :: "jsnum \<Rightarrow> jsnum \<Rightarrow> bool" where
  "jgt a b = jlt b a"

text \<open>Strict equality \<open>===\<close> on numbers.\<close>

definition jeq :: "jsnum \<Rightarrow> jsnum \<Rightarrow> bool" where
  "jeq a b = (a \<noteq> NaN \<and> b \<noteq> NaN \<and> a = b)"

definition jge :: "jsnum \<Rightarrow> jsnum \<Rightarrow> bool" where
  "jge a b = (jgt a b \<or> jeq a b)"

text \<open>\<open>Math.max\<close> of two numbers.\<close>

definition jmax :: "jsnum \<Rightarrow> jsnum \<Rightarrow> jsnum" where
  "jmax a b = (if a = NaN \<or> b = NaN then NaN else if jlt a b then b else a)"

text \<open>\<open>a || b\<close> on numbers: \<open>0\<close> and \<open>NaN\<close> are the falsy numbers.\<close>

definition jor :: "jsnum \<Rightarrow> jsnum \<Rightarrow> jsnum" where
  "jor a b = (if a = Fin 0 \<or> a = NaN then b else a)"

text \<open>
  \<open>Math.atan2(y, x)\<close>: the angle of the point \<open>(x, y)\<close>, in \<open>(-\<pi>, \<pi>]\<close>, and \<open>0\<close> at the
  origin.
\<close>

definition atan2r :: "real \<Rightarrow> real \<Rightarrow> real" where
  "atan2r y x =
     (if 0 < x then arctan (y / x)
      else if x < 0 then (if 0 \<le> y then arctan (y / x) + pi else arctan (y / x) - pi)
      else if 0 < y then pi / 2
      else if y < 0 then - (pi / 2)
      else 0)"

fun jatan2 :: "jsnum \<Rightarrow> jsnum \<Rightarrow> jsnum" where
  "jatan2 (Fin y) (Fin x) = Fin (atan2r y x)"
| "jatan2 NaN _ = NaN"
| "jatan2 _ NaN = NaN"
| "jatan2 PosInf PosInf = Fin (pi / 4)"
| "jatan2 PosInf NegInf = Fin (3 * pi / 4)"
| "jatan2 PosInf (Fin x) = Fin (pi / 2)"
| "jatan2 NegInf PosInf = Fin (- (pi / 4))"
| "jatan2 NegInf NegInf = Fin (- (3 * pi / 4))"
| "jatan2 NegInf (Fin x) = Fin (- (pi / 2))"
| "jatan2 (Fin y) PosInf = Fin 0"
| "jatan2 (Fin y) NegInf = (if 0 \<le> y then Fin pi else Fin (- pi))"

section \<open>The vectors of the rendering library\<close>

text \<open>
  \<open>THREE.Vector3\<close> belongs to the rendering library, not to the repository. The methods
  the program calls are modelled from the library's definitions: \<open>subVectors\<close>,
  \<open>length\<close>, \<open>normalize\<close> (which divides by \<open>length() || 1\<close>, through
  \<open>multiplyScalar(1 / s)\<close>), \<open>distanceTo\<close> and \<open>lerpVectors\<close>. The fields \<open>x\<close>, \<open>y\<close>,
  \<open>z\<close> are named \<open>vx\<close>, \<open>vy\<close>, \<open>vz\<close>.
\<close>

record Vector3 =
  vx :: jsnum
  vy :: jsnum
  vz :: jsnum

definition vec :: "real \<Rightarrow> real \<Rightarrow> real \<Rightarrow> Vector3" where
  "vec a b c = \<lparr>vx = Fin a, vy = Fin b, vz = Fin c\<rparr>"

definition subVectors :: "Vector3 \<Rightarrow> Vector3 \<Rightarrow> Vector3" where
  "subVectors a b =
     \<lparr>vx = jsub (vx a) (vx b), vy = jsub (vy a) (vy b), vz = jsub (vz a) (vz b)\<rparr>"

definition length3 :: "Vector3 \<Rightarrow> jsnum" where
  "length3 v =
     jsqrt (jadd (jadd (jmul (vx v) (vx v)) (jmul (vy v) (vy v))) (jmul (vz v) (vz v)))"

definition multiplyScalar :: "Vector3 \<Rightarrow> jsnum \<Rightarrow> Vector3" where
  "multiplyScalar v s = \<lparr>vx = jmul (vx v) s, vy = jmul (vy v) s, vz = jmul (vz v) s\<rparr>"

definition divideScalar :: "Vector3 \<Rightarrow> jsnum \<Rightarrow> Vector3" where
  "divideScalar v s = multiplyScalar v (jdiv (Fin 1) s)"

definition normalize :: "Vector3 \<Rightarrow> Vector3" where
  "normalize v = divideScalar v (jor (length3 v) (Fin 1))"

definition distanceTo :: "Vector3 \<Rightarrow> Vector3 \<Rightarrow> jsnum" where
  "distanceTo a b =
     (let dx = jsub (vx a) (vx b); dy = jsub (vy a) (vy b); dz = jsub (vz a) (vz b)
      in jsqrt (jadd (jadd (jmul dx dx) (jmul dy dy)) (jmul dz dz)))"

definition lerpVectors :: "Vector3 \<Rightarrow> Vector3 \<Rightarrow> jsnum \<Rightarrow> Vector3" where
  "lerpVectors v1 v2 alpha =
     \<lparr>vx = jadd (vx v1) (jmul (jsub (vx v2) (vx v1)) alpha),
      vy = jadd (vy v1) (jmul (jsub (vy v2) (vy v1)) alpha),
      vz = jadd (vz v1) (jmul (jsub (vz v2) (vz v1)) alpha)\<rparr>"

section \<open>The walking object\<close>

text \<open>
  The class \<open>WalkingObject\<close>. The fields of the scene object that the methods write are
  fields of the state: \<open>position\<close> is \<open>object.position\<close>, \<open>rotationY\<close> is
  \<open>object.rotation.y\<close>, \<open>visible\<close> is \<open>object.visible\<close>, and \<open>bodyParts\<close> holds the six
  coordinates of the limbs that the gait animation sets. A callback field is \<open>True\<close> when
  a function is registered; calling it appends an event to \<open>events\<close>, and so does
  \<open>console.warn\<close>. The program has a single flag \<open>isWalking\<close>; it stores no separate
  idle or completed state.
\<close>

datatype event = Warn string | Progress nat nat | Complete

record Pose =
  bodyY :: jsnum
  headY :: jsnum
  leftArmX :: jsnum
  rightArmX :: jsnum
  leftLegX :: jsnum
  rightLegX :: jsnum

record WalkingObject =
  path :: "Vector3 list"
  currentPathIndex :: nat
  progress :: jsnum
  isWalking :: bool
  walkSpeed :: jsnum
  onComplete :: bool
  onProgress :: bool
  position :: Vector3
  rotationY :: jsnum
  visible :: bool
  bodyParts :: Pose
  events :: "event list"

text \<open>The state that the constructor and \<open>createObject\<close> build.\<close>

definition constructor :: WalkingObject where
  "constructor =
     \<lparr>path = [], currentPathIndex = 0, progress = Fin 0, isWalking = False,
      walkSpeed = Fin 2, onComplete = False, onProgress = False,
      position = vec 0 0 0, rotationY = Fin 0, visible = False,
      bodyParts = \<lparr>bodyY = Fin (3 / 10), headY = Fin (3 / 4), leftArmX = Fin 0,
        rightArmX = Fin 0, leftLegX = Fin 0, rightLegX = Fin 0\<rparr>,
      events = []\<rparr>"

definition emit :: "event \<Rightarrow> WalkingObject \<Rightarrow> WalkingObject" where
  "emit e s = s\<lparr>events := events s @ [e]\<rparr>"

definition lookAtNextPoint :: "WalkingObject \<Rightarrow> WalkingObject" where
  "lookAtNextPoint s =
     (if currentPathIndex s + 1 < length (path s) then
        (let currentPos = path s ! currentPathIndex s;
             nextPos = path s ! (currentPathIndex s + 1);
             direction = normalize (subVectors nextPos currentPos)
         in if jgt (length3 direction) (Fin 0)
            then s\<lparr>rotationY := jatan2 (vx direction) (vz direction)\<rparr>
            else s)
      else s)"

text \<open>
  The two gait animations read the clock: \<open>now\<close> is the value of \<open>Date.now()\<close>, in
  milliseconds, at the call.
\<close>

definition animateWalking :: "int \<Rightarrow> jsnum \<Rightarrow> WalkingObject \<Rightarrow> WalkingObject" where
  "animateWalking now deltaTime s =
     (let time = jmul (Fin (of_int now)) (Fin (5 / 1000));
          walkCycle = jsin (jmul (jmul (jmul time (walkSpeed s)) deltaTime) (Fin 60))
      in s\<lparr>bodyParts :=
            \<lparr>bodyY = jadd (Fin (3 / 10)) (jmul (jabs walkCycle) (Fin (2 / 100))),
             headY = jadd (Fin (3 / 4)) (jmul (jabs walkCycle) (Fin (2 / 100))),
             leftArmX = jmul walkCycle (Fin (1 / 2)),
             rightArmX = jmul (jneg walkCycle) (Fin (1 / 2)),
             leftLegX = jmul walkCycle (Fin (3 / 10)),
             rightLegX = jmul (jneg walkCycle) (Fin (3 / 10))\<rparr>\<rparr>)"

definition animateIdle :: "int \<Rightarrow> WalkingObject \<Rightarrow> WalkingObject" where
  "animateIdle now s =
     (let time = jmul (Fin (of_int now)) (Fin (1 / 1000));
          idleBob = jmul (jsin time) (Fin (1 / 100))
      in s\<lparr>bodyParts :=
            \<lparr>bodyY = jadd (Fin (3 / 10)) idleBob,
             headY = jadd (Fin (3 / 4)) idleBob,
             leftArmX = Fin 0, rightArmX = Fin 0,
             leftLegX = Fin 0, rightLegX = Fin 0\<rparr>\<rparr>)"

text \<open>
  \<open>setPath\<close>: the argument is \<open>None\<close> for a missing path (\<open>null\<close> or \<open>undefined\<close>). The
  points are copied, which on values is the identity.
\<close>

definition setPath :: "Vector3 list option \<Rightarrow> WalkingObject \<Rightarrow> WalkingObject" where
  "setPath worldPath s =
     (case worldPath of
        None \<Rightarrow> emit (Warn ''Invalid path provided to walking object'') s
      | Some wp \<Rightarrow>
          if length wp < 2 then emit (Warn ''Invalid path provided to walking object'') s
          else
            (let s1 = s\<lparr>path := wp, currentPathIndex := 0, progress := Fin 0,
                        isWalking := False\<rparr>;
                 s2 = s1\<lparr>position := path s1 ! 0, visible := True\<rparr>
             in if 1 < length (path s2) then lookAtNextPoint s2 else s2))"

definition startWalking :: "WalkingObject \<Rightarrow> WalkingObject" where
  "startWalking s =
     (if length (path s) < 2 then emit (Warn ''Cannot start walking: no valid path set'') s
      else
        (let s1 = s\<lparr>isWalking := True\<rparr>
         in if currentPathIndex s1 = 0 \<and> jeq (progress s1) (Fin 0) then
              (let s2 = lookAtNextPoint (s1\<lparr>position := path s1 ! 0\<rparr>)
               in if onProgress s2 then emit (Progress 0 (length (path s2))) s2 else s2)
            else s1))"

definition resumeWalking :: "WalkingObject \<Rightarrow> WalkingObject" where
  "resumeWalking s =
     (if length (path s) < 2 then emit (Warn ''Cannot resume walking: no valid path set'') s
      else s\<lparr>isWalking := True\<rparr>)"

definition isAtStart :: "WalkingObject \<Rightarrow> bool" where
  "isAtStart s = (currentPathIndex s = 0 \<and> jeq (progress s) (Fin 0))"

definition stopWalking :: "WalkingObject \<Rightarrow> WalkingObject" where
  "stopWalking s = s\<lparr>isWalking := False\<rparr>"

definition resetPosition :: "int \<Rightarrow> WalkingObject \<Rightarrow> WalkingObject" where
  "resetPosition now s =
     (if 0 < length (path s) then
        (let s1 = s\<lparr>currentPathIndex := 0, progress := Fin 0\<rparr>;
             s2 = s1\<lparr>position := path s1 ! 0\<rparr>
         in animateIdle now (lookAtNextPoint s2))
      else s)"

definition hide :: "WalkingObject \<Rightarrow> WalkingObject" where
  "hide s = s\<lparr>visible := False, isWalking := False\<rparr>"

definition show_object :: "WalkingObject \<Rightarrow> WalkingObject" where
  "show_object s = s\<lparr>visible := True\<rparr>"

definition setWalkSpeed :: "jsnum \<Rightarrow> WalkingObject \<Rightarrow> WalkingObject" where
  "setWalkSpeed speed s = s\<lparr>walkSpeed := jmax (Fin (1 / 10)) speed\<rparr>"

definition setOnComplete :: "bool \<Rightarrow> WalkingObject \<Rightarrow> WalkingObject" where
  "setOnComplete callback s = s\<lparr>onComplete := callback\<rparr>"

definition setOnProgress :: "bool \<Rightarrow> WalkingObject \<Rightarrow> WalkingObject" where
  "setOnProgress callback s = s\<lparr>onProgress := callback\<rparr>"

text \<open>
  \<open>update\<close>, split at the source's comments: \<open>reachedEnd\<close> is the branch of a walker whose
  index is at the last waypoint, \<open>moveAlong\<close> the movement on a segment.
\<close>

definition reachedEnd :: "int \<Rightarrow> WalkingObject \<Rightarrow> WalkingObject" where
  "reachedEnd now s =
     (let s1 = animateIdle now (s\<lparr>isWalking := False\<rparr>)
      in if onComplete s1 then emit Complete s1 else s1)"

definition nextSegment :: "WalkingObject \<Rightarrow> WalkingObject" where
  "nextSegment s =
     (let s1 = s\<lparr>currentPathIndex := currentPathIndex s + 1, progress := Fin 0\<rparr>;
          s2 = (if int (currentPathIndex s1) < int (length (path s1)) - 1
                then lookAtNextPoint s1 else s1)
      in if onProgress s2
         then emit (Progress (currentPathIndex s2) (length (path s2))) s2 else s2)"

definition moveAlong :: "jsnum \<Rightarrow> WalkingObject \<Rightarrow> WalkingObject" where
  "moveAlong deltaTime s =
     (let currentPos = path s ! currentPathIndex s;
          nextPos = path s ! (currentPathIndex s + 1);
          segmentLength = distanceTo currentPos nextPos;
          moveDistance = jmul (walkSpeed s) deltaTime;
          s1 = s\<lparr>progress := jadd (progress s) (jdiv moveDistance segmentLength)\<rparr>
      in if jge (progress s1) (Fin 1) then nextSegment s1
         else s1\<lparr>position := lerpVectors currentPos nextPos (progress s1)\<rparr>)"

definition update :: "int \<Rightarrow> jsnum \<Rightarrow> WalkingObject \<Rightarrow> WalkingObject" where
  "update now deltaTime s =
     (if \<not> isWalking s \<or> length (path s) < 2 then animateIdle now s
      else if int (length (path s)) - 1 \<le> int (currentPathIndex s) then reachedEnd now s
      else animateWalking now deltaTime (moveAlong deltaTime s))"

text \<open>A run of \<open>update\<close> calls, each with its clock reading and its \<open>deltaTime\<close>.\<close>

fun updates :: "(int \<times> jsnum) list \<Rightarrow> WalkingObject \<Rightarrow> WalkingObject" where
  "updates [] s = s"
| "updates ((now, deltaTime) # rest) s = updates rest (update now deltaTime s)"

section \<open>Floor levels\<close>

text \<open>
  \<open>detectFloorLevels\<close> of the model loader. Its input is the list of the selected objects,
  each given by the lowest and the highest \<open>y\<close> of its bounding box (\<open>box.min.y\<close>,
  \<open>box.max.y\<close>), which the rendering library computes. A \<open>Set\<close> keeps its elements in
  insertion order without repetition. The comparator of the sort is \<open>a - b\<close>: the sort is
  stable and, on numbers other than \<open>NaN\<close>, ascending. \<open>reduce\<close> without an initial value
  throws a \<open>TypeError\<close> on an empty array.
\<close>

datatype error = TypeError

definition set_add :: "jsnum \<Rightarrow> jsnum list \<Rightarrow> jsnum list" where
  "set_add v heights = (if v \<in> set heights then heights else heights @ [v])"

definition round1 :: "jsnum \<Rightarrow> jsnum" where
  "round1 v = jdiv (jround (jmul v (Fin 10))) (Fin 10)"

fun collectHeights :: "(jsnum \<times> jsnum) list \<Rightarrow> jsnum list \<Rightarrow> jsnum list" where
  "collectHeights [] heights = heights"
| "collectHeights ((minY, maxY) # objs) heights =
     collectHeights objs (set_add (round1 maxY) (set_add (round1 minY) heights))"

fun insert_sorted :: "jsnum \<Rightarrow> jsnum list \<Rightarrow> jsnum list" where
  "insert_sorted v [] = [v]"
| "insert_sorted v (h # hs) =
     (if jlt (jsub v h) (Fin 0) then v # h # hs else h # insert_sorted v hs)"

fun sort_numeric :: "jsnum list \<Rightarrow> jsnum list \<Rightarrow> jsnum list" where
  "sort_numeric [] sorted_part = sorted_part"
| "sort_numeric (v # vs) sorted_part = sort_numeric vs (insert_sorted v sorted_part)"

fun reduce_add :: "jsnum list \<Rightarrow> error + jsnum" where
  "reduce_add [] = Inl TypeError"
| "reduce_add (a # rest) = Inr (foldl jadd a rest)"

definition mean :: "jsnum list \<Rightarrow> error + jsnum" where
  "mean currentGroup =
     (case reduce_add currentGroup of
        Inl e \<Rightarrow> Inl e
      | Inr acc \<Rightarrow> Inr (jdiv acc (Fin (real (length currentGroup)))))"

text \<open>
  The loop over \<open>sortedHeights[1..]\<close> and the push of the last group after it. Reading the
  last element of an empty group would give \<open>undefined\<close>, and a difference with it \<open>NaN\<close>.
\<close>

fun groupLoop :: "jsnum list \<Rightarrow> jsnum list \<Rightarrow> jsnum list \<Rightarrow> error + jsnum list" where
  "groupLoop [] currentGroup groupedFloors =
     (if 0 < length currentGroup then
        (case mean currentGroup of
           Inl e \<Rightarrow> Inl e
         | Inr m \<Rightarrow> Inr (groupedFloors @ [m]))
      else Inr groupedFloors)"
| "groupLoop (h # hs) currentGroup groupedFloors =
     (if jlt (jsub h (case currentGroup of [] \<Rightarrow> NaN | _ \<Rightarrow> last currentGroup)) (Fin (1 / 2))
      then groupLoop hs (currentGroup @ [h]) groupedFloors
      else
        (case mean currentGroup of
           Inl e \<Rightarrow> Inl e
         | Inr m \<Rightarrow> groupLoop hs [h] (groupedFloors @ [m])))"

definition detectFloorLevels :: "(jsnum \<times> jsnum) list \<Rightarrow> error + jsnum list" where
  "detectFloorLevels selectedObjects =
     (if length selectedObjects = 0 then Inr []
      else
        (let heights = collectHeights selectedObjects [];
             sortedHeights = sort_numeric heights []
         in case sortedHeights of
              [] \<Rightarrow> Inr []
            | h # hs \<Rightarrow> groupLoop hs [h] []))"

section \<open>Notions used in the statements\<close>

text \<open>
  \<open>onSegment\<close> is the condition under which \<open>update\<close> reaches its movement code: the
  walker walks, the path has two points at least and the index is before the last
  waypoint. \<open>progressAfter\<close> is the value that the movement code assigns to \<open>progress\<close>
  before it compares it with \<open>1\<close>.
\<close>

definition onSegment :: "WalkingObject \<Rightarrow> bool" where
  "onSegment s =
     (isWalking s \<and> 2 \<le> length (path s) \<and> currentPathIndex s + 1 < length (path s))"

definition progressAfter :: "jsnum \<Rightarrow> WalkingObject \<Rightarrow> jsnum" where
  "progressAfter deltaTime s =
     jadd (progress s)
       (jdiv (jmul (walkSpeed s) deltaTime)
          (distanceTo (path s ! currentPathIndex s) (path s ! (currentPathIndex s + 1))))"

text \<open>
  The walker of the specification's scenario: a fresh object, the path from \<open>(0,0,0)\<close> to
  \<open>(10,0,0)\<close>, the constructor's speed \<open>2\<close>, started.
\<close>

definition straightWalk :: WalkingObject where
  "straightWalk = startWalking (setPath (Some [vec 0 0 0, vec 10 0 0]) constructor)"

text \<open>A walker whose first segment has length zero, started.\<close>

definition stalledWalk :: WalkingObject where
  "stalledWalk =
     startWalking (setPath (Some [vec 0 0 0, vec 0 0 0, vec 1 0 0]) constructor)"

text \<open>
  The walker of the scenario with a completion callback registered, after five calls of
  \<open>update\<close> with \<open>deltaTime = 1\<close>.
\<close>

definition atEnd :: WalkingObject where
  "atEnd =
     updates [(0, Fin 1), (0, Fin 1), (0, Fin 1), (0, Fin 1), (0, Fin 1)]
       (setOnComplete True straightWalk)"

text \<open>
  A walker that is given the path from \<open>(0,0,0)\<close> to \<open>(10,0,0)\<close>, and the same walker given
  the path from \<open>(10,0,0)\<close> straight up to \<open>(10,3,0)\<close> after that.
\<close>

definition horizontalStep :: WalkingObject where
  "horizontalStep = setPath (Some [vec 0 0 0, vec 10 0 0]) constructor"

definition verticalStep :: WalkingObject where
  "verticalStep = setPath (Some [vec 10 0 0, vec 10 3 0]) horizontalStep"

text \<open>
  The number of completion notifications in the log, and the number of those that a run of
  \<open>update\<close> calls can still add.
\<close>

definition completions :: "WalkingObject \<Rightarrow> nat" where
  "completions s = length (filter (\<lambda>e. e = Complete) (events s))"

definition pending :: "WalkingObject \<Rightarrow> nat" where
  "pending s = completions s + (if isWalking s then 1 else 0)"

text \<open>
  Two selected objects whose bounding boxes give the elevation samples \<open>0.0\<close>, \<open>0.05\<close>,
  \<open>3.0\<close> and \<open>3.02\<close>.
\<close>

definition sampleObjects :: "(jsnum \<times> jsnum) list" where
  "sampleObjects = [(Fin 0, Fin (5 / 100)), (Fin 3, Fin (302 / 100))]"

text \<open>
  The calls that a client can make on a walking object, and a run of calls. The states that
  a program can reach are the states \<open>run calls constructor\<close>.
\<close>

datatype call =
    SetPath "Vector3 list option"
  | StartWalking
  | ResumeWalking
  | StopWalking
  | ResetPosition int
  | Hide
  | Show
  | SetWalkSpeed jsnum
  | SetOnComplete bool
  | SetOnProgress bool
  | Update int jsnum

fun perform :: "call \<Rightarrow> WalkingObject \<Rightarrow> WalkingObject" where
  "perform (SetPath worldPath) s = setPath worldPath s"
| "perform StartWalking s = startWalking s"
| "perform ResumeWalking s = resumeWalking s"
| "perform StopWalking s = stopWalking s"
| "perform (ResetPosition now) s = resetPosition now s"
| "perform Hide s = hide s"
| "perform Show s = show_object s"
| "perform (SetWalkSpeed speed) s = setWalkSpeed speed s"
| "perform (SetOnComplete callback) s = setOnComplete callback s"
| "perform (SetOnProgress callback) s = setOnProgress callback s"
| "perform (Update now deltaTime) s = update now deltaTime s"

fun run :: "call list \<Rightarrow> WalkingObject \<Rightarrow> WalkingObject" where
  "run [] s = s"
| "run (c # cs) s = run cs (perform c s)"

text \<open>
  The calls that leave a traversal as it is: all but those that set a path, start or resume
  the walk, or reset the position.
\<close>

fun sameTraversal :: "call \<Rightarrow> bool" where
  "sameTraversal (SetPath worldPath) = False"
| "sameTraversal StartWalking = False"
| "sameTraversal ResumeWalking = False"
| "sameTraversal (ResetPosition now) = False"
| "sameTraversal c = True"












section \<open>Unfolding rules\<close>

lemmas num_defs = jsub_def jgt_def jeq_def jge_def jmax_def jor_def inf_times_def

lemmas vec_defs = vec_def subVectors_def length3_def multiplyScalar_def divideScalar_def
  normalize_def distanceTo_def lerpVectors_def

lemmas obj_defs = constructor_def emit_def lookAtNextPoint_def animateWalking_def
  animateIdle_def setPath_def startWalking_def resumeWalking_def stopWalking_def
  resetPosition_def hide_def show_object_def setWalkSpeed_def setOnComplete_def
  setOnProgress_def reachedEnd_def nextSegment_def moveAlong_def update_def

lemmas floor_defs = set_add_def round1_def mean_def detectFloorLevels_def


section \<open>Auxiliary facts\<close>

lemma sqrt_100: "sqrt 100 = 10"
  using real_sqrt_abs [of 10] by simp

lemma sqrt_9: "sqrt 9 = 3"
  using real_sqrt_abs [of 3] by simp

lemma update_cases:
  "update now deltaTime s =
     (if onSegment s then animateWalking now deltaTime (moveAlong deltaTime s)
      else if isWalking s \<and> 2 \<le> length (path s) then reachedEnd now s
      else animateIdle now s)"
  by (auto simp: update_def onSegment_def)

lemma lookAtNextPoint_fields [simp]:
  "path (lookAtNextPoint s) = path s"
  "currentPathIndex (lookAtNextPoint s) = currentPathIndex s"
  "progress (lookAtNextPoint s) = progress s"
  "isWalking (lookAtNextPoint s) = isWalking s"
  "position (lookAtNextPoint s) = position s"
  "events (lookAtNextPoint s) = events s"
  "onComplete (lookAtNextPoint s) = onComplete s"
  "onProgress (lookAtNextPoint s) = onProgress s"
  "walkSpeed (lookAtNextPoint s) = walkSpeed s"
  "visible (lookAtNextPoint s) = visible s"
  "bodyParts (lookAtNextPoint s) = bodyParts s"
  by (simp_all add: lookAtNextPoint_def Let_def)

lemma animateIdle_fields [simp]:
  "path (animateIdle now s) = path s"
  "currentPathIndex (animateIdle now s) = currentPathIndex s"
  "progress (animateIdle now s) = progress s"
  "isWalking (animateIdle now s) = isWalking s"
  "position (animateIdle now s) = position s"
  "rotationY (animateIdle now s) = rotationY s"
  "events (animateIdle now s) = events s"
  "onComplete (animateIdle now s) = onComplete s"
  "onProgress (animateIdle now s) = onProgress s"
  "walkSpeed (animateIdle now s) = walkSpeed s"
  "visible (animateIdle now s) = visible s"
  by (simp_all add: animateIdle_def Let_def)

lemma animateWalking_fields [simp]:
  "path (animateWalking now dt s) = path s"
  "currentPathIndex (animateWalking now dt s) = currentPathIndex s"
  "progress (animateWalking now dt s) = progress s"
  "isWalking (animateWalking now dt s) = isWalking s"
  "position (animateWalking now dt s) = position s"
  "rotationY (animateWalking now dt s) = rotationY s"
  "events (animateWalking now dt s) = events s"
  "onComplete (animateWalking now dt s) = onComplete s"
  "onProgress (animateWalking now dt s) = onProgress s"
  "walkSpeed (animateWalking now dt s) = walkSpeed s"
  "visible (animateWalking now dt s) = visible s"
  by (simp_all add: animateWalking_def Let_def)

lemma nextSegment_fields [simp]:
  "path (nextSegment s) = path s"
  "currentPathIndex (nextSegment s) = currentPathIndex s + 1"
  "progress (nextSegment s) = Fin 0"
  "isWalking (nextSegment s) = isWalking s"
  "position (nextSegment s) = position s"
  "onComplete (nextSegment s) = onComplete s"
  "onProgress (nextSegment s) = onProgress s"
  "walkSpeed (nextSegment s) = walkSpeed s"
  "visible (nextSegment s) = visible s"
  "bodyParts (nextSegment s) = bodyParts s"
  "events (nextSegment s) =
     events s @ (if onProgress s then [Progress (currentPathIndex s + 1) (length (path s))] else [])"
  by (simp_all add: nextSegment_def emit_def Let_def)

lemma moveAlong_cases:
  "moveAlong deltaTime s =
     (if jge (progressAfter deltaTime s) (Fin 1)
      then nextSegment (s\<lparr>progress := progressAfter deltaTime s\<rparr>)
      else s\<lparr>progress := progressAfter deltaTime s,
             position := lerpVectors (path s ! currentPathIndex s)
               (path s ! (currentPathIndex s + 1)) (progressAfter deltaTime s)\<rparr>)"
  by (simp add: moveAlong_def progressAfter_def Let_def)

lemma reachedEnd_fields [simp]:
  "path (reachedEnd now s) = path s"
  "currentPathIndex (reachedEnd now s) = currentPathIndex s"
  "progress (reachedEnd now s) = progress s"
  "isWalking (reachedEnd now s) = False"
  "position (reachedEnd now s) = position s"
  "rotationY (reachedEnd now s) = rotationY s"
  "onComplete (reachedEnd now s) = onComplete s"
  "onProgress (reachedEnd now s) = onProgress s"
  "walkSpeed (reachedEnd now s) = walkSpeed s"
  "visible (reachedEnd now s) = visible s"
  "events (reachedEnd now s) = events s @ (if onComplete s then [Complete] else [])"
  by (simp_all add: reachedEnd_def emit_def Let_def)

section \<open>Rejected paths\<close>

text \<open>
  Claim C5. For a missing path and for a path of fewer than two points, \<open>setPath\<close> changes
  no field of the walker: the path, the index, the progress, the position, the yaw, the
  walking flag and the visibility stay as they were. The call returns normally, and its
  only effect is the warning \<open>Invalid path provided to walking object\<close> on the console.
\<close>

theorem setPath_rejects_short_path:
  assumes "case seq of None \<Rightarrow> True | Some wp \<Rightarrow> length wp < 2"
  shows "setPath seq s =
      s\<lparr>events := events s @ [Warn ''Invalid path provided to walking object'']\<rparr>
    \<and> path (setPath seq s) = path s
    \<and> currentPathIndex (setPath seq s) = currentPathIndex s
    \<and> progress (setPath seq s) = progress s
    \<and> position (setPath seq s) = position s
    \<and> rotationY (setPath seq s) = rotationY s
    \<and> isWalking (setPath seq s) = isWalking s
    \<and> visible (setPath seq s) = visible s"
  using assms by (cases seq) (simp_all add: setPath_def emit_def)

theorem setPath_rejects_short_path_witness:
  "length [vec 1 2 3] < 2
   \<and> setPath (Some [vec 1 2 3]) constructor =
       constructor\<lparr>events := [Warn ''Invalid path provided to walking object'']\<rparr>
   \<and> path (setPath (Some [vec 1 2 3]) constructor) = []"
  using setPath_rejects_short_path [of "Some [vec 1 2 3]" constructor]
  by (simp add: constructor_def)

section \<open>One segment per update\<close>

text \<open>
  Claim C10. A call of \<open>update\<close> never lowers the index and raises it by one at most,
  whatever \<open>deltaTime\<close> is. When the walker is on a segment and the progress after the
  increment is \<open>1\<close> or more, the index goes up by one, the progress is set to exactly \<open>0\<close>
  (what exceeded \<open>1\<close> is dropped) and the position is left as it was.
\<close>

theorem update_advances_at_most_one_segment:
  "currentPathIndex s \<le> currentPathIndex (update now deltaTime s)
   \<and> currentPathIndex (update now deltaTime s) \<le> currentPathIndex s + 1
   \<and> (onSegment s \<and> jge (progressAfter deltaTime s) (Fin 1) \<longrightarrow>
        currentPathIndex (update now deltaTime s) = currentPathIndex s + 1
        \<and> progress (update now deltaTime s) = Fin 0
        \<and> position (update now deltaTime s) = position s)"
  by (simp add: update_cases moveAlong_cases)

theorem update_advances_at_most_one_segment_witness:
  "onSegment straightWalk \<and> jge (progressAfter (Fin 1000) straightWalk) (Fin 1)
   \<and> progressAfter (Fin 1000) straightWalk = Fin 200
   \<and> currentPathIndex straightWalk = 0
   \<and> currentPathIndex (update 0 (Fin 1000) straightWalk) = 1
   \<and> progress (update 0 (Fin 1000) straightWalk) = Fin 0
   \<and> position (update 0 (Fin 1000) straightWalk) = vec 0 0 0"
  using update_advances_at_most_one_segment [of straightWalk 0 "Fin 1000"]
  by (simp add: straightWalk_def onSegment_def progressAfter_def obj_defs vec_defs num_defs
      sqrt_100 atan2r_def Let_def)

section \<open>Floor levels of the sample\<close>

text \<open>
  Claim C3, as stated: on the samples \<open>0.0\<close>, \<open>0.05\<close>, \<open>3.0\<close>, \<open>3.02\<close> the clusterer would
  return the means \<open>0.025\<close> and \<open>3.01\<close> of the raw samples. It does not: every sample is
  rounded to one decimal before it is grouped, so the heights are \<open>0\<close>, \<open>0.1\<close> and \<open>3\<close>,
  and the mean of the first group is \<open>0.05\<close>, twice the value of the claim.
\<close>

theorem detectFloorLevels_sample_not_raw_means:
  "collectHeights sampleObjects [] = [Fin 0, Fin (1 / 10), Fin 3]
   \<and> mean [Fin 0, Fin (1 / 10)] = Inr (Fin (2 * (25 / 1000)))
   \<and> detectFloorLevels sampleObjects \<noteq> Inr [Fin (25 / 1000), Fin (301 / 100)]"
  by (simp add: sampleObjects_def floor_defs num_defs)

text \<open>
  Claim C3, amended: on these samples \<open>detectFloorLevels\<close> returns exactly two levels, the
  means \<open>0.05\<close> and \<open>3.0\<close> of the rounded heights.
\<close>

theorem detectFloorLevels_sample:
  "detectFloorLevels sampleObjects = Inr [Fin (5 / 100), Fin 3]"
  by (simp add: sampleObjects_def floor_defs num_defs)

section \<open>Yaw on a vertical segment\<close>

text \<open>
  Claim C4 at a segment that differs in the vertical axis only. The walker faces the yaw
  \<open>\<pi> / 2\<close> of its first path. For the second path \<open>lookAtNextPoint\<close> normalizes the full
  three-dimensional direction \<open>(0, 3, 0)\<close> to \<open>(0, 1, 0)\<close>, whose length \<open>1\<close> passes the
  guard, and the yaw is replaced by \<open>atan2(0, 0) = 0\<close>: it is not retained.
\<close>

theorem lookAtNextPoint_vertical_segment:
  "rotationY horizontalStep = Fin (pi / 2)
   \<and> normalize (subVectors (vec 10 3 0) (vec 10 0 0)) = vec 0 1 0
   \<and> rotationY verticalStep = Fin 0
   \<and> rotationY verticalStep \<noteq> rotationY horizontalStep"
  by (simp add: verticalStep_def horizontalStep_def obj_defs vec_defs num_defs sqrt_9 sqrt_100
      atan2r_def Let_def)

lemma atan2r_scale: "0 < k \<Longrightarrow> atan2r (k * y) (k * x) = atan2r y x"
  by (simp add: atan2r_def zero_less_mult_iff mult_less_0_iff zero_le_mult_iff not_less)

lemma sum_squares_pos:
  fixes a b c :: real
  assumes "a \<noteq> 0 \<or> b \<noteq> 0 \<or> c \<noteq> 0"
  shows "0 < a * a + b * b + c * c"
proof -
  have "0 \<le> a * a" "0 \<le> b * b" "0 \<le> c * c" by simp_all
  moreover from assms have "0 < a * a \<or> 0 < b * b \<or> 0 < c * c"
    by (auto simp: zero_less_mult_iff)
  ultimately show ?thesis by linarith
qed

text \<open>
  What \<open>lookAtNextPoint\<close> does on finite waypoints in general: the yaw is retained only
  when the next waypoint equals the current one in all three coordinates, and is
  \<open>atan2(dx, dz)\<close> otherwise, also when \<open>dx\<close> and \<open>dz\<close> are both zero.
\<close>

lemma lookAtNextPoint_yaw:
  assumes "currentPathIndex s + 1 < length (path s)"
    and "path s ! currentPathIndex s = vec a1 a2 a3"
    and "path s ! (currentPathIndex s + 1) = vec b1 b2 b3"
  shows "rotationY (lookAtNextPoint s) =
     (if b1 = a1 \<and> b2 = a2 \<and> b3 = a3 then rotationY s
      else Fin (atan2r (b1 - a1) (b3 - a3)))"
proof (cases "b1 = a1 \<and> b2 = a2 \<and> b3 = a3")
  case True
  with assms show ?thesis
    by (simp add: lookAtNextPoint_def vec_defs num_defs Let_def)
next
  case False
  define len where
    "len = sqrt ((b1 - a1) * (b1 - a1) + (b2 - a2) * (b2 - a2) + (b3 - a3) * (b3 - a3))"
  from False have "0 < (b1 - a1) * (b1 - a1) + (b2 - a2) * (b2 - a2) + (b3 - a3) * (b3 - a3)"
    by (intro sum_squares_pos) auto
  then have len: "0 < len" by (simp add: len_def)
  have sub: "subVectors (vec b1 b2 b3) (vec a1 a2 a3) = vec (b1 - a1) (b2 - a2) (b3 - a3)"
    by (simp add: vec_defs num_defs)
  have l3: "length3 (vec (b1 - a1) (b2 - a2) (b3 - a3)) = Fin len"
    using len by (simp add: vec_defs len_def not_less)
  from len have nrm: "normalize (vec (b1 - a1) (b2 - a2) (b3 - a3)) =
      vec ((b1 - a1) * (1 / len)) ((b2 - a2) * (1 / len)) ((b3 - a3) * (1 / len))"
    by (simp add: normalize_def l3 jor_def divideScalar_def)
      (simp add: multiplyScalar_def vec_def)
  from False len
  have "0 < ((b1 - a1) * (1 / len)) * ((b1 - a1) * (1 / len))
      + ((b2 - a2) * (1 / len)) * ((b2 - a2) * (1 / len))
      + ((b3 - a3) * (1 / len)) * ((b3 - a3) * (1 / len))"
    by (intro sum_squares_pos) auto
  then have pos: "jgt (length3 (vec ((b1 - a1) * (1 / len)) ((b2 - a2) * (1 / len))
      ((b3 - a3) * (1 / len)))) (Fin 0)"
    by (simp add: length3_def vec_def jgt_def not_less [symmetric] less_imp_le)
  from len have "atan2r ((1 / len) * (b1 - a1)) ((1 / len) * (b3 - a3))
      = atan2r (b1 - a1) (b3 - a3)"
    by (intro atan2r_scale) simp
  then have "atan2r ((b1 - a1) * (1 / len)) ((b3 - a3) * (1 / len))
      = atan2r (b1 - a1) (b3 - a3)"
    by (simp add: mult.commute)
  with assms pos have "rotationY (lookAtNextPoint s) = Fin (atan2r (b1 - a1) (b3 - a3))"
    by (simp add: lookAtNextPoint_def Let_def sub nrm) (simp add: vec_def)
  with False show ?thesis by (simp only: if_False)
qed

section \<open>The completion notification\<close>

lemma updates_not_walking:
  "\<not> isWalking s \<Longrightarrow> events (updates calls s) = events s \<and> \<not> isWalking (updates calls s)"
proof (induction calls arbitrary: s)
  case Nil
  then show ?case by simp
next
  case (Cons c calls)
  obtain now dt where c: "c = (now, dt)" by (cases c)
  from Cons.prems have "update now dt s = animateIdle now s"
    by (simp add: update_def)
  with Cons c show ?case by simp
qed

lemma pending_update: "pending (update now dt s) \<le> pending s"
  by (simp add: update_cases moveAlong_cases pending_def completions_def)

lemma pending_updates: "pending (updates calls s) \<le> pending s"
proof (induction calls arbitrary: s)
  case Nil
  show ?case by simp
next
  case (Cons c calls)
  obtain now dt where c: "c = (now, dt)" by (cases c)
  have "pending (updates calls (update now dt s)) \<le> pending (update now dt s)"
    by (rule Cons.IH)
  also have "\<dots> \<le> pending s" by (rule pending_update)
  finally show ?case by (simp add: c)
qed

lemma pending_perform: "sameTraversal c \<Longrightarrow> pending (perform c s) \<le> pending s"
proof (cases c)
  case (Update now dt)
  then show ?thesis by (simp add: pending_update)
qed (simp_all add: pending_def completions_def stopWalking_def hide_def
    show_object_def setWalkSpeed_def setOnComplete_def setOnProgress_def)

lemma pending_run: "list_all sameTraversal cs \<Longrightarrow> pending (run cs s) \<le> pending s"
proof (induction cs arbitrary: s)
  case Nil
  show ?case by simp
next
  case (Cons c cs)
  then have "pending (run cs (perform c s)) \<le> pending (perform c s)" by simp
  also from Cons.prems have "\<dots> \<le> pending s" by (simp add: pending_perform)
  finally show ?case by simp
qed

text \<open>
  Claim C6. When a walking object with a registered completion callback has its index at
  the last waypoint, the next \<open>update\<close> appends one completion notification, and any run
  of further \<open>update\<close> calls appends nothing. More generally, a run of \<open>update\<close> calls from
  any state adds one completion notification at most, and so does any run of calls among
  which there is no \<open>setPath\<close>, \<open>startWalking\<close>, \<open>resumeWalking\<close> or \<open>resetPosition\<close>.
\<close>

theorem completion_fires_once:
  "(isWalking s \<and> 2 \<le> length (path s) \<and> length (path s) \<le> currentPathIndex s + 1
      \<and> onComplete s \<longrightarrow>
       events (update now deltaTime s) = events s @ [Complete]
       \<and> events (updates calls (update now deltaTime s)) = events s @ [Complete])
   \<and> completions (updates calls s) \<le> completions s + 1
   \<and> (list_all sameTraversal cs \<longrightarrow> completions (run cs s) \<le> completions s + 1)"
proof (intro conjI impI)
  assume a: "isWalking s \<and> 2 \<le> length (path s) \<and> length (path s) \<le> currentPathIndex s + 1
      \<and> onComplete s"
  then have u: "update now deltaTime s = reachedEnd now s"
    by (simp add: update_cases onSegment_def)
  with a show e: "events (update now deltaTime s) = events s @ [Complete]" by simp
  have "\<not> isWalking (update now deltaTime s)" by (simp add: u)
  from updates_not_walking [OF this, of calls] e
  show "events (updates calls (update now deltaTime s)) = events s @ [Complete]" by simp
next
  have "completions (updates calls s) \<le> pending (updates calls s)"
    by (simp add: pending_def)
  also have "\<dots> \<le> pending s" by (rule pending_updates)
  also have "\<dots> \<le> completions s + 1" by (simp add: pending_def)
  finally show "completions (updates calls s) \<le> completions s + 1" .
next
  assume "list_all sameTraversal cs"
  have "completions (run cs s) \<le> pending (run cs s)"
    by (simp add: pending_def)
  also from \<open>list_all sameTraversal cs\<close> have "\<dots> \<le> pending s" by (rule pending_run)
  also have "\<dots> \<le> completions s + 1" by (simp add: pending_def)
  finally show "completions (run cs s) \<le> completions s + 1" .
qed

theorem completion_fires_once_witness:
  "isWalking atEnd \<and> 2 \<le> length (path atEnd)
   \<and> length (path atEnd) \<le> currentPathIndex atEnd + 1
   \<and> onComplete atEnd \<and> events atEnd = []
   \<and> events (update 0 (Fin 1) atEnd) = [Complete]
   \<and> events (updates [(0, Fin 1), (0, Fin 1), (0, Fin 1)] (update 0 (Fin 1) atEnd)) = [Complete]
   \<and> completions (updates [(0, Fin 1), (0, Fin 1), (0, Fin 1)] atEnd) \<le> completions atEnd + 1
   \<and> list_all sameTraversal [Update 0 (Fin 1), StopWalking, Update 0 (Fin 1), Hide, Show]
   \<and> completions (run [Update 0 (Fin 1), StopWalking, Update 0 (Fin 1), Hide, Show] atEnd)
      \<le> completions atEnd + 1"
proof -
  have a: "isWalking atEnd \<and> 2 \<le> length (path atEnd)
   \<and> length (path atEnd) \<le> currentPathIndex atEnd + 1
   \<and> onComplete atEnd \<and> events atEnd = []"
    by (simp add: atEnd_def straightWalk_def obj_defs vec_defs num_defs sqrt_100 atan2r_def
        Let_def)
  with completion_fires_once [of atEnd 0 "Fin 1" "[(0, Fin 1), (0, Fin 1), (0, Fin 1)]"
      "[Update 0 (Fin 1), StopWalking, Update 0 (Fin 1), Hide, Show]"]
  show ?thesis by simp
qed

section \<open>Segments of length zero\<close>

text \<open>
  Claim C7, as stated: on a segment of length zero the progress would be forced to \<open>1\<close>,
  no division by zero would occur and the walk would always pass the segment. The
  movement code has no such guard. With \<open>deltaTime = 0\<close> on the zero-length first segment
  of \<open>stalledWalk\<close> it computes \<open>0 / 0\<close>: the progress becomes \<open>NaN\<close>, the index stays
  \<open>0\<close>, the position becomes \<open>NaN\<close> in every coordinate, and later calls with a positive
  \<open>deltaTime\<close> never leave the segment.
\<close>

theorem zero_length_segment_zero_step_stalls:
  "onSegment stalledWalk
   \<and> distanceTo (path stalledWalk ! 0) (path stalledWalk ! 1) = Fin 0
   \<and> progress (update 0 (Fin 0) stalledWalk) = NaN
   \<and> currentPathIndex (update 0 (Fin 0) stalledWalk) = 0
   \<and> position (update 0 (Fin 0) stalledWalk) = \<lparr>vx = NaN, vy = NaN, vz = NaN\<rparr>
   \<and> currentPathIndex (updates [(0, Fin 0), (0, Fin 1), (0, Fin 1)] stalledWalk) = 0
   \<and> progress (updates [(0, Fin 0), (0, Fin 1), (0, Fin 1)] stalledWalk) = NaN
   \<and> events (updates [(0, Fin 0), (0, Fin 1), (0, Fin 1)] stalledWalk) = []"
  by (simp add: stalledWalk_def onSegment_def obj_defs vec_defs num_defs atan2r_def Let_def)

text \<open>
  Claim C7, amended: when the walker is on a segment of length zero, its progress is
  finite and the distance \<open>walkSpeed * deltaTime\<close> of the call is positive, the division
  by the zero length gives plus infinity, which passes the test \<open>progress >= 1\<close>: the
  index goes up by one, the progress is set to \<open>0\<close>, the walker keeps walking, and nothing
  but the progress notification, if one is registered, is reported.
\<close>

theorem zero_length_segment_is_skipped:
  assumes "onSegment s"
    and "distanceTo (path s ! currentPathIndex s) (path s ! (currentPathIndex s + 1)) = Fin 0"
    and "progress s = Fin p" and "walkSpeed s = Fin v" and "0 < v * d"
  shows "progressAfter (Fin d) s = PosInf
    \<and> currentPathIndex (update now (Fin d) s) = currentPathIndex s + 1
    \<and> progress (update now (Fin d) s) = Fin 0
    \<and> isWalking (update now (Fin d) s)
    \<and> events (update now (Fin d) s) =
        events s @
        (if onProgress s then [Progress (currentPathIndex s + 1) (length (path s))] else [])"
proof -
  from assms have pa: "progressAfter (Fin d) s = PosInf"
    by (auto simp: progressAfter_def zero_less_mult_iff)
  have "jge PosInf (Fin 1)" by (simp add: num_defs)
  with pa assms(1) show ?thesis
    by (simp add: update_cases moveAlong_cases onSegment_def)
qed

theorem zero_length_segment_is_skipped_witness:
  "onSegment stalledWalk
   \<and> distanceTo (path stalledWalk ! currentPathIndex stalledWalk)
       (path stalledWalk ! (currentPathIndex stalledWalk + 1)) = Fin 0
   \<and> progress stalledWalk = Fin 0 \<and> walkSpeed stalledWalk = Fin 2
   \<and> (0::real) < 2 * (1 / 60)
   \<and> progressAfter (Fin (1 / 60)) stalledWalk = PosInf
   \<and> currentPathIndex (update 0 (Fin (1 / 60)) stalledWalk) = 1
   \<and> progress (update 0 (Fin (1 / 60)) stalledWalk) = Fin 0
   \<and> events (update 0 (Fin (1 / 60)) stalledWalk) = []"
proof -
  have h1: "onSegment stalledWalk"
    and h2: "distanceTo (path stalledWalk ! currentPathIndex stalledWalk)
       (path stalledWalk ! (currentPathIndex stalledWalk + 1)) = Fin 0"
    and h3: "progress stalledWalk = Fin 0" and h4: "walkSpeed stalledWalk = Fin 2"
    and h5: "\<not> onProgress stalledWalk \<and> currentPathIndex stalledWalk = 0
      \<and> events stalledWalk = []"
    by (simp_all add: stalledWalk_def onSegment_def obj_defs vec_defs num_defs atan2r_def
        Let_def)
  have h6: "(0::real) < 2 * (1 / 60)" by simp
  from zero_length_segment_is_skipped [OF h1 h2 h3 h4 h6, of 0] h1 h2 h3 h4 h5
  show ?thesis by simp
qed

section \<open>Resetting the position\<close>

text \<open>
  Claim C8, as stated: after \<open>resetPosition\<close> the walker would not be walking. The walker
  of the scenario, one second into its walk, is still walking after \<open>resetPosition\<close>:
  the method does not write \<open>isWalking\<close>.
\<close>

theorem resetPosition_keeps_walking:
  "isWalking (update 0 (Fin 1) straightWalk)
   \<and> progress (update 0 (Fin 1) straightWalk) = Fin (1 / 5)
   \<and> isWalking (resetPosition 0 (update 0 (Fin 1) straightWalk))"
  by (simp add: straightWalk_def obj_defs vec_defs num_defs sqrt_100 atan2r_def Let_def)

text \<open>
  Claim C8, amended: in every state with a non-empty path, \<open>resetPosition\<close> sets the
  index and the progress to \<open>0\<close>, puts the walker on the first waypoint, sets the yaw to
  what \<open>lookAtNextPoint\<close> computes at index \<open>0\<close>, and leaves the path and the walking
  flag as they were: a walker that was not walking is not started.
\<close>

theorem resetPosition_effect:
  assumes "path s \<noteq> []"
  shows "currentPathIndex (resetPosition now s) = 0
    \<and> progress (resetPosition now s) = Fin 0
    \<and> position (resetPosition now s) = path s ! 0
    \<and> rotationY (resetPosition now s) =
        rotationY (lookAtNextPoint (s\<lparr>currentPathIndex := 0\<rparr>))
    \<and> isWalking (resetPosition now s) = isWalking s
    \<and> path (resetPosition now s) = path s"
  using assms by (simp add: resetPosition_def Let_def lookAtNextPoint_def)

theorem resetPosition_effect_witness:
  "path (update 0 (Fin 1) straightWalk) \<noteq> []
   \<and> position (update 0 (Fin 1) straightWalk) = vec 2 0 0
   \<and> currentPathIndex (resetPosition 0 (update 0 (Fin 1) straightWalk)) = 0
   \<and> progress (resetPosition 0 (update 0 (Fin 1) straightWalk)) = Fin 0
   \<and> position (resetPosition 0 (update 0 (Fin 1) straightWalk)) = vec 0 0 0
   \<and> rotationY (resetPosition 0 (update 0 (Fin 1) straightWalk)) = Fin (pi / 2)"
  using resetPosition_effect [of "update 0 (Fin 1) straightWalk" 0]
  by (simp add: straightWalk_def obj_defs vec_defs num_defs sqrt_100 atan2r_def Let_def)

section \<open>The gait and the clock\<close>

lemma sin_1_pos: "0 < sin (1::real)"
  using sin_gt_zero [of 1] pi_ge_two by simp

text \<open>
  Claim C9, as stated: the pose would not depend on the wall clock. Both animations read
  \<open>Date.now()\<close>: the same idle walker, and the same walking walker, updated with the same
  \<open>deltaTime\<close> at two different clock readings get two different poses.
\<close>

theorem gait_depends_on_clock:
  "bodyParts (update 0 (Fin (1 / 120)) constructor)
     \<noteq> bodyParts (update 1000 (Fin (1 / 120)) constructor)
   \<and> bodyParts (update 0 (Fin (1 / 120)) straightWalk)
     \<noteq> bodyParts (update 200 (Fin (1 / 120)) straightWalk)"
  using sin_1_pos
  by (simp add: straightWalk_def obj_defs vec_defs num_defs sqrt_100 atan2r_def Let_def)

text \<open>
  Claim C9, amended: the pose that \<open>update\<close> sets is determined by the clock reading of
  the call, its \<open>deltaTime\<close>, the walking speed and whether the walker is on a segment.
  Two walkers that agree on the last two get the same pose from calls with the same clock
  reading and the same \<open>deltaTime\<close>, whatever their paths, positions and earlier poses.
\<close>

theorem gait_determined_by_clock_and_arguments:
  assumes "onSegment s1 = onSegment s2" and "walkSpeed s1 = walkSpeed s2"
  shows "bodyParts (update now deltaTime s1) = bodyParts (update now deltaTime s2)"
  using assms
  by (simp add: update_cases moveAlong_cases animateWalking_def animateIdle_def
      reachedEnd_def Let_def emit_def)

theorem gait_determined_by_clock_and_arguments_witness:
  "onSegment straightWalk = onSegment (update 0 (Fin 1) straightWalk)
   \<and> walkSpeed straightWalk = walkSpeed (update 0 (Fin 1) straightWalk)
   \<and> position straightWalk \<noteq> position (update 0 (Fin 1) straightWalk)
   \<and> bodyParts (update 7 (Fin (1 / 60)) straightWalk)
      = bodyParts (update 7 (Fin (1 / 60)) (update 0 (Fin 1) straightWalk))"
proof -
  have h1: "onSegment straightWalk = onSegment (update 0 (Fin 1) straightWalk)"
    and h2: "walkSpeed straightWalk = walkSpeed (update 0 (Fin 1) straightWalk)"
    and h3: "position straightWalk \<noteq> position (update 0 (Fin 1) straightWalk)"
    by (simp_all add: straightWalk_def onSegment_def obj_defs vec_defs num_defs sqrt_100
        atan2r_def Let_def)
  from gait_determined_by_clock_and_arguments [OF h1 h2, of 7 "Fin (1 / 60)"] h1 h2 h3
  show ?thesis by simp
qed

section \<open>The invariant of a walking object\<close>







section \<open>Walking a path to its end\<close>






















end
